theory Spec2Isabelle
  imports Main "HOL-Library.Word" "HOL-Library.Sublist"
begin

section \<open>JavaScript strings\<close>

text \<open>
  A JavaScript string is a sequence of 16-bit code units. \<open>js\<close> turns an ASCII literal
  of the source into that sequence. The source uses four string operations:
  truthiness of a possibly undefined string (\<open>if (s)\<close>), the default operator
  (\<open>s || d\<close>), \<open>substring(0, n)\<close> and \<open>trim()\<close>.
\<close>

type_synonym code_unit = "16 word"
type_synonym jsstring = "code_unit list"

definition js :: "string \<Rightarrow> jsstring" where
  "js s = map of_char s"

definition truthy :: "jsstring option \<Rightarrow> bool" where
  "truthy v = (case v of None \<Rightarrow> False | Some s \<Rightarrow> s \<noteq> [])"

definition or_else :: "jsstring option \<Rightarrow> jsstring \<Rightarrow> jsstring" where
  "or_else v d = (case v of None \<Rightarrow> d | Some s \<Rightarrow> if s = [] then d else s)"

definition substring0 :: "nat \<Rightarrow> jsstring \<Rightarrow> jsstring" where
  "substring0 n s = take n s"

text \<open>
  \<open>trim\<close> removes the code units of the ECMAScript classes WhiteSpace (TAB, VT, FF,
  U+FEFF and the Unicode space separators) and LineTerminator (LF, CR, U+2028, U+2029)
  from both ends. All of them lie in the basic plane, so each is one code unit.
\<close>

definition is_white_space :: "code_unit \<Rightarrow> bool" where
  "is_white_space c \<longleftrightarrow>
     c = 0x0009 \<or> c = 0x000B \<or> c = 0x000C \<or> c = 0xFEFF \<or>
     c = 0x0020 \<or> c = 0x00A0 \<or> c = 0x1680 \<or> (0x2000 \<le> c \<and> c \<le> 0x200A) \<or>
     c = 0x202F \<or> c = 0x205F \<or> c = 0x3000 \<or>
     c = 0x000A \<or> c = 0x000D \<or> c = 0x2028 \<or> c = 0x2029"

definition js_trim :: "jsstring \<Rightarrow> jsstring" where
  "js_trim s = rev (dropWhile is_white_space (rev (dropWhile is_white_space s)))"

text \<open>
  \<open>s.replace(/^p/, '')\<close> for a literal pattern \<open>p\<close>: the pattern is anchored at the
  start, so the match, if any, is the leading \<open>p\<close>.
\<close>

definition strip_prefix :: "jsstring \<Rightarrow> jsstring \<Rightarrow> jsstring option" where
  "strip_prefix p s = (if take (length p) s = p then Some (drop (length p) s) else None)"


section \<open>Data model (types.ts and the parts of the SDK the code reads)\<close>

text \<open>
  \<open>GeneratedImage\<close>, \<open>ProcessingState\<close> and \<open>ImageFile\<close> are the interfaces of types.ts.
  A field name can be declared once, so the \<open>mimeType\<close> of \<open>ImageFile\<close> is
  \<open>fileMimeType\<close> and that of the SDK's inline data is \<open>blobMimeType\<close>; the \<open>text\<close>
  of a part is \<open>text'\<close>. Optional fields (\<open>f?: T\<close>) are options.
\<close>

record generated_image =
  url :: jsstring
  mimeType :: jsstring

datatype stage = Idle | Uploading | Processing | Complete

record processing_state =
  isLoading :: bool
  error :: "jsstring option"
  stage :: stage

record js_file =
  file_name :: jsstring
  file_type :: jsstring
  file_bytes :: "8 word list"

record image_file =
  file' :: js_file
  previewUrl :: jsstring
  base64 :: jsstring
  fileMimeType :: jsstring

record blob =
  blobMimeType :: "jsstring option"
  data :: "jsstring option"

record part =
  text' :: "jsstring option"
  inlineData :: "blob option"

record sdk_content =
  parts :: "part list option"

record sdk_candidate =
  content :: "sdk_content option"

record sdk_response =
  candidates :: "sdk_candidate list option"

record sdk_request =
  model :: jsstring
  contents :: sdk_content

text \<open>A thrown value: an \<open>Error\<close> object, whose \<open>message\<close> may be missing or empty.\<close>

datatype js_error = Error (message: "jsstring option")


section \<open>The generation client (services/geminiService)\<close>

definition MODEL_NAME :: jsstring where
  "MODEL_NAME = js ''gemini-2.5-flash-image''"

text \<open>
  \<open>imageBase64.replace(/^data:image\/(png|jpeg|jpg|webp);base64,/, '')\<close>: the
  alternatives are tried in the order of the pattern; at most one of them can be followed
  by \<open>;base64,\<close>.
\<close>

definition cleanBase64 :: "jsstring \<Rightarrow> jsstring" where
  "cleanBase64 imageBase64 =
     (case strip_prefix (js ''data:image/png;base64,'') imageBase64 of Some rest \<Rightarrow> rest
      | None \<Rightarrow>
     (case strip_prefix (js ''data:image/jpeg;base64,'') imageBase64 of Some rest \<Rightarrow> rest
      | None \<Rightarrow>
     (case strip_prefix (js ''data:image/jpg;base64,'') imageBase64 of Some rest \<Rightarrow> rest
      | None \<Rightarrow>
     (case strip_prefix (js ''data:image/webp;base64,'') imageBase64 of Some rest \<Rightarrow> rest
      | None \<Rightarrow> imageBase64))))"

definition build_request :: "jsstring \<Rightarrow> jsstring \<Rightarrow> jsstring \<Rightarrow> sdk_request" where
  "build_request imageBase64 imageMimeType prompt' =
     \<lparr>model = MODEL_NAME,
      contents = \<lparr>parts = Some
        [\<lparr>text' = Some prompt', inlineData = None\<rparr>,
         \<lparr>text' = None,
          inlineData = Some \<lparr>blobMimeType = Some imageMimeType,
                             data = Some (cleanBase64 imageBase64)\<rparr>\<rparr>]\<rparr>\<rparr>"

text \<open>\<open>response.candidates?.[0]?.content?.parts\<close>\<close>

definition response_parts :: "sdk_response \<Rightarrow> part list option" where
  "response_parts response =
     (case candidates response of None \<Rightarrow> None
      | Some [] \<Rightarrow> None
      | Some (c # _) \<Rightarrow> (case content c of None \<Rightarrow> None | Some ct \<Rightarrow> parts ct))"

text \<open>The loop's test \<open>part.inlineData && part.inlineData.data\<close>.\<close>

definition has_inline_image :: "part \<Rightarrow> bool" where
  "has_inline_image p = (case inlineData p of None \<Rightarrow> False | Some b \<Rightarrow> truthy (data b))"

text \<open>The loop's body: the image built from a part that passes the test.\<close>

definition image_of_part :: "part \<Rightarrow> generated_image option" where
  "image_of_part p =
     (case inlineData p of None \<Rightarrow> None
      | Some b \<Rightarrow>
        (case data b of None \<Rightarrow> None
         | Some d \<Rightarrow>
           if d = [] then None
           else (let mt = or_else (blobMimeType b) (js ''image/png'');
                     u = js ''data:'' @ mt @ js '';base64,'' @ d
                 in Some \<lparr>url = u, mimeType = mt\<rparr>)))"

text \<open>\<open>for (const part of parts) { if (...) { generatedImage = ...; break } }\<close>\<close>

fun find_image :: "part list \<Rightarrow> generated_image option" where
  "find_image [] = None"
| "find_image (p # ps) =
     (case image_of_part p of Some g \<Rightarrow> Some g | None \<Rightarrow> find_image ps)"

definition text_message :: "jsstring \<Rightarrow> jsstring" where
  \<open>text_message t =
     js ''The model returned text instead of an image: "'' @ substring0 100 t @ js ''..."''\<close>

text \<open>
  The fallback when the loop found nothing: \<open>parts.find(p => p.text)\<close>, then
  \<open>if (textPart?.text) throw ...\<close>, then the generic error.
\<close>

definition no_image_error :: "part list \<Rightarrow> js_error" where
  "no_image_error ps =
     (case List.find (\<lambda>p. truthy (text' p)) ps of
        None \<Rightarrow> Error (Some (js ''No image data found in response''))
      | Some textPart \<Rightarrow>
          (case text' textPart of
             None \<Rightarrow> Error (Some (js ''No image data found in response''))
           | Some t \<Rightarrow>
               if t = [] then Error (Some (js ''No image data found in response''))
               else Error (Some (text_message t))))"

text \<open>The body of the \<open>try\<close> after the remote call has resolved.\<close>

definition parse_response :: "sdk_response \<Rightarrow> js_error + generated_image" where
  "parse_response response =
     (case response_parts response of
        None \<Rightarrow> Inl (Error (Some (js ''No content generated'')))
      | Some ps \<Rightarrow>
          (case find_image ps of
             None \<Rightarrow> Inl (no_image_error ps)
           | Some generatedImage \<Rightarrow> Inr generatedImage))"

text \<open>
  The client. The remote model \<open>ai\<close> is a parameter: it answers the one request with a
  response or rejects with an error. Whatever the \<open>try\<close> throws is thrown again as
  \<open>new Error(error.message || "Failed to generate image")\<close>.
\<close>

definition generateEditedImage ::
  "(sdk_request \<Rightarrow> js_error + sdk_response) \<Rightarrow> jsstring \<Rightarrow> jsstring \<Rightarrow> jsstring
     \<Rightarrow> js_error + generated_image" where
  "generateEditedImage ai imageBase64 imageMimeType prompt' =
     (case (case ai (build_request imageBase64 imageMimeType prompt') of
              Inl e \<Rightarrow> Inl e
            | Inr response \<Rightarrow> parse_response response) of
        Inl e \<Rightarrow> Inl (Error (Some (or_else (message e) (js ''Failed to generate image''))))
      | Inr generatedImage \<Rightarrow> Inr generatedImage)"


section \<open>The orchestrator (App.tsx)\<close>

definition DEFAULT_PROMPT :: jsstring where
  "DEFAULT_PROMPT = js ''Using the reference image, create a hyper-realistic modern oil painting with soft directional lighting. Preserve the outfit details. Add refined brush textures and natural skin tones. Background should be a soft, blurred studio gradient in deep navy and charcoal. Ultra-detailed realism, elegant fine-art finish. Portrait size: 4:5 ratio.''"

text \<open>The four \<open>useState\<close> cells of the component.\<close>

record app =
  prompt :: jsstring
  sourceImage :: "image_file option"
  resultImage :: "generated_image option"
  state :: processing_state

definition init :: app where
  "init = \<lparr>prompt = DEFAULT_PROMPT, sourceImage = None, resultImage = None,
           state = \<lparr>isLoading = False, error = None, stage = Idle\<rparr>\<rparr>"

text \<open>
  \<open>reader.onloadend\<close> of \<open>processFile\<close>. The object URL and the reader's result are
  supplied by the browser.
\<close>

definition processFile_onloadend :: "js_file \<Rightarrow> jsstring \<Rightarrow> jsstring \<Rightarrow> app \<Rightarrow> app" where
  "processFile_onloadend f objectUrl result s =
     s\<lparr>sourceImage := Some \<lparr>file' = f, previewUrl = objectUrl, base64 = result,
                            fileMimeType = file_type f\<rparr>,
       resultImage := None,
       state := \<lparr>isLoading = False, error = None, stage = Idle\<rparr>\<rparr>"

text \<open>
  \<open>loadExample\<close> runs in three pieces: up to the \<open>await\<close> of the fetch; the \<open>catch\<close>
  block when the fetch or the blob rejects; the \<open>finally\<close> block. When the fetch
  resolves, \<open>processFile\<close> only starts a reader, whose \<open>onloadend\<close> comes later.
\<close>

definition loadExample_begin :: "app \<Rightarrow> app" where
  "loadExample_begin s = s\<lparr>state := (state s)\<lparr>isLoading := True, stage := Uploading\<rparr>\<rparr>"

definition loadExample_catch :: "app \<Rightarrow> app" where
  "loadExample_catch s =
     s\<lparr>state := (state s)\<lparr>error :=
        Some (js ''Failed to load example image. Please upload one manually.'')\<rparr>\<rparr>"

definition loadExample_finally :: "app \<Rightarrow> app" where
  "loadExample_finally s = s\<lparr>state := (state s)\<lparr>isLoading := False\<rparr>\<rparr>"

definition loadExample_resolved :: "app \<Rightarrow> app" where
  "loadExample_resolved s = loadExample_finally s"

definition loadExample_rejected :: "app \<Rightarrow> app" where
  "loadExample_rejected s = loadExample_finally (loadExample_catch s)"

text \<open>
  \<open>handleGenerate\<close> up to the \<open>await\<close>: the new state and, when the client is called,
  the arguments of the call.
\<close>

definition handleGenerate_begin :: "app \<Rightarrow> app \<times> (jsstring \<times> jsstring \<times> jsstring) option" where
  "handleGenerate_begin s =
     (case sourceImage s of
        None \<Rightarrow>
          (s\<lparr>state := (state s)\<lparr>error := Some (js ''Please upload an image first.'')\<rparr>\<rparr>, None)
      | Some img \<Rightarrow>
          if js_trim (prompt s) = [] then
            (s\<lparr>state := (state s)\<lparr>error := Some (js ''Please enter a prompt.'')\<rparr>\<rparr>, None)
          else
            (s\<lparr>state := \<lparr>isLoading = True, error = None, stage = Processing\<rparr>\<rparr>,
             Some (base64 img, fileMimeType img, prompt s)))"

definition handleGenerate_resolved :: "generated_image \<Rightarrow> app \<Rightarrow> app" where
  "handleGenerate_resolved result s =
     s\<lparr>resultImage := Some result,
       state := \<lparr>isLoading = False, error = None, stage = Complete\<rparr>\<rparr>"

definition handleGenerate_rejected :: "js_error \<Rightarrow> app \<Rightarrow> app" where
  "handleGenerate_rejected e s =
     s\<lparr>state := \<lparr>isLoading = False,
                 error = Some (or_else (message e)
                                 (js ''Failed to process image. Please try again.'')),
                 stage = Idle\<rparr>\<rparr>"

text \<open>One whole attempt with nothing else happening while the call is in flight.\<close>

definition handleGenerate ::
  "(jsstring \<Rightarrow> jsstring \<Rightarrow> jsstring \<Rightarrow> js_error + generated_image) \<Rightarrow> app \<Rightarrow> app" where
  "handleGenerate client s =
     (case handleGenerate_begin s of
        (s1, None) \<Rightarrow> s1
      | (s1, Some (b, m, p)) \<Rightarrow>
          (case client b m p of
             Inr result \<Rightarrow> handleGenerate_resolved result s1
           | Inl e \<Rightarrow> handleGenerate_rejected e s1))"

definition clearAll :: "app \<Rightarrow> app" where
  "clearAll s =
     s\<lparr>sourceImage := None, resultImage := None, prompt := DEFAULT_PROMPT,
       state := \<lparr>isLoading = False, error = None, stage = Idle\<rparr>\<rparr>"

text \<open>
  The component reacts to events: the user's actions and the settling of what is in
  flight. \<open>step\<close> runs the handler of one event, \<open>run\<close> a sequence of them from left to
  right. Selecting a file changes no state until its reader has finished.
\<close>

datatype event =
    FileLoaded js_file jsstring jsstring
  | ExampleClicked
  | ExampleFetched
  | ExampleFailed
  | GenerateClicked
  | GenerateResolved generated_image
  | GenerateRejected js_error
  | ClearClicked
  | PromptEdited jsstring
  | ResultDismissed

fun step :: "event \<Rightarrow> app \<Rightarrow> app" where
  "step (FileLoaded f u r) s = processFile_onloadend f u r s"
| "step ExampleClicked s = loadExample_begin s"
| "step ExampleFetched s = loadExample_resolved s"
| "step ExampleFailed s = loadExample_rejected s"
| "step GenerateClicked s = fst (handleGenerate_begin s)"
| "step (GenerateResolved g) s = handleGenerate_resolved g s"
| "step (GenerateRejected e) s = handleGenerate_rejected e s"
| "step ClearClicked s = clearAll s"
| "step (PromptEdited p) s = s\<lparr>prompt := p\<rparr>"
| "step ResultDismissed s = s\<lparr>resultImage := None\<rparr>"

fun run :: "event list \<Rightarrow> app \<Rightarrow> app" where
  "run [] s = s"
| "run (e # es) s = run es (step e s)"


section \<open>Concrete inputs\<close>

text \<open>A response with one candidate whose content has the given parts.\<close>

definition response_of :: "part list \<Rightarrow> sdk_response" where
  "response_of ps = \<lparr>candidates = Some [\<lparr>content = Some \<lparr>parts = Some ps\<rparr>\<rparr>]\<rparr>"

text \<open>The response of the scenario: one part with inline PNG data \<open>AAAA\<close>.\<close>

definition scenario_response :: sdk_response where
  "scenario_response = \<lparr>candidates = Some [\<lparr>content = Some \<lparr>parts = Some
      [\<lparr>text' = None,
        inlineData = Some \<lparr>blobMimeType = Some (js ''image/png''),
                           data = Some (js ''AAAA'')\<rparr>\<rparr>]\<rparr>\<rparr>]\<rparr>"

text \<open>
  Three parts: a text part, an image part without a MIME type, and a JPEG image part.
\<close>

definition w_parts :: "part list" where
  "w_parts =
     [\<lparr>text' = Some (js ''Here is your painting''), inlineData = None\<rparr>,
      \<lparr>text' = None, inlineData = Some \<lparr>blobMimeType = None, data = Some (js ''QUJD'')\<rparr>\<rparr>,
      \<lparr>text' = None,
       inlineData = Some \<lparr>blobMimeType = Some (js ''image/jpeg''), data = Some (js ''WFla'')\<rparr>\<rparr>]"

text \<open>
  An orchestrator state with a PNG selected, an earlier result and the prompt \<open>oil\<close>;
  the same state with a prompt of four white-space code units (space, TAB, LF, U+3000).
\<close>

definition w_image :: image_file where
  "w_image = \<lparr>file' = \<lparr>file_name = js ''cat.png'', file_type = js ''image/png'',
                         file_bytes = [0x89, 0x50, 0x4E]\<rparr>,
              previewUrl = js ''blob:1'',
              base64 = js ''data:image/png;base64,iVBO'',
              fileMimeType = js ''image/png''\<rparr>"

definition w_result :: generated_image where
  "w_result = \<lparr>url = js ''data:image/png;base64,QUJD'', mimeType = js ''image/png''\<rparr>"

definition w_app :: app where
  "w_app = \<lparr>prompt = js ''oil'', sourceImage = Some w_image, resultImage = Some w_result,
            state = \<lparr>isLoading = False, error = None, stage = Complete\<rparr>\<rparr>"

definition w_blank_app :: app where
  "w_blank_app = \<lparr>prompt = [0x0020, 0x0009, 0x000A, 0x3000], sourceImage = Some w_image,
                  resultImage = Some w_result,
                  state = \<lparr>isLoading = False, error = None, stage = Complete\<rparr>\<rparr>"

text \<open>What \<open>readAsDataURL\<close> gives for a GIF picked in the file dialog.\<close>

definition gif_data_uri :: jsstring where
  "gif_data_uri = js ''data:image/gif;base64,R0lGODlh''"

text \<open>One direction of the relation between \<open>isLoading\<close> and \<open>stage\<close>.\<close>

definition loading_inv :: "app \<Rightarrow> bool" where
  "loading_inv s \<longleftrightarrow>
     (isLoading (state s) \<longrightarrow> stage (state s) = Uploading \<or> stage (state s) = Processing)"


section \<open>The parsing of the response\<close>

lemma js_append: "js (a @ b) = js a @ js b"
  by (simp add: js_def)

lemma all_dropWhile_iff: "(\<forall>x\<in>set (dropWhile P xs). P x) \<longleftrightarrow> (\<forall>x\<in>set xs. P x)"
proof
  assume a: "\<forall>x\<in>set (dropWhile P xs). P x"
  have "dropWhile P xs = []"
  proof (rule ccontr)
    assume ne: "dropWhile P xs \<noteq> []"
    then have "\<not> P (hd (dropWhile P xs))" by (rule hd_dropWhile)
    moreover from ne have "hd (dropWhile P xs) \<in> set (dropWhile P xs)" by simp
    ultimately show False using a by blast
  qed
  then show "\<forall>x\<in>set xs. P x" by (simp add: dropWhile_eq_Nil_conv)
next
  assume "\<forall>x\<in>set xs. P x"
  then show "\<forall>x\<in>set (dropWhile P xs). P x"
    using set_dropWhileD by fastforce
qed

lemma js_trim_Nil_iff: "js_trim p = [] \<longleftrightarrow> (\<forall>c\<in>set p. is_white_space c)"
  by (simp add: js_trim_def dropWhile_eq_Nil_conv all_dropWhile_iff)

lemma image_of_part_None_iff: "image_of_part p = None \<longleftrightarrow> \<not> has_inline_image p"
  by (simp add: image_of_part_def has_inline_image_def truthy_def Let_def split: option.splits)

lemma image_of_part_NoneI: "\<not> has_inline_image p \<Longrightarrow> image_of_part p = None"
  by (simp add: image_of_part_None_iff)

lemma find_image_None: "\<forall>p\<in>set ps. \<not> has_inline_image p \<Longrightarrow> find_image ps = None"
  by (induction ps) (simp_all add: image_of_part_NoneI)

lemma find_image_first:
  "\<forall>q\<in>set pre. \<not> has_inline_image q \<Longrightarrow> has_inline_image p \<Longrightarrow>
   find_image (pre @ p # post) = image_of_part p"
proof (induction pre)
  case Nil
  then show ?case by (simp add: image_of_part_None_iff split: option.splits)
next
  case (Cons q pre)
  then show ?case by (simp add: image_of_part_NoneI)
qed

lemma find_first:
  "\<forall>q\<in>set pre. \<not> P q \<Longrightarrow> P p \<Longrightarrow> List.find P (pre @ p # post) = Some p"
  by (induction pre) simp_all

lemma find_none: "\<forall>q\<in>set ps. \<not> P q \<Longrightarrow> List.find P ps = None"
  by (induction ps) simp_all

lemma text_message_nonempty: "text_message t \<noteq> []"
  by (simp add: text_message_def js_def)

lemma rethrow_text_message: "or_else (Some (text_message t)) d = text_message t"
  by (simp add: or_else_def text_message_nonempty)

lemma sublist_text_message: "sublist (substring0 100 t) (text_message t)"
  unfolding text_message_def by (rule sublist_appendI)

lemma image_of_part_eq:
  assumes "inlineData p = Some b" "data b = Some d" "d \<noteq> []"
  shows "image_of_part p =
    Some \<lparr>url = js ''data:'' @ or_else (blobMimeType b) (js ''image/png'') @ js '';base64,'' @ d,
          mimeType = or_else (blobMimeType b) (js ''image/png'')\<rparr>"
  using assms by (simp add: image_of_part_def Let_def)

text \<open>
  Claim C1. When the response has a parts list, the client returns the first part that
  carries inline image data and ignores the parts after it. The MIME type of the result
  is that of the part, or \<open>image/png\<close> when the part gives none (or an empty one);
  the url is \<open>data:\<close>, the MIME type, \<open>;base64,\<close> and the data. For the one-part
  response with MIME type \<open>image/png\<close> and data \<open>AAAA\<close> the url is
  \<open>data:image/png;base64,AAAA\<close>.
\<close>

theorem generateEditedImage_first_image:
  "(ai (build_request imageBase64 imageMimeType pr) = Inr response \<and>
    response_parts response = Some (pre @ p # post) \<and>
    (\<forall>q\<in>set pre. \<not> has_inline_image q) \<and>
    inlineData p = Some b \<and> data b = Some d \<and> d \<noteq> []
    \<longrightarrow> (\<exists>mt. generateEditedImage ai imageBase64 imageMimeType pr =
                Inr \<lparr>url = js ''data:'' @ mt @ js '';base64,'' @ d, mimeType = mt\<rparr> \<and>
              (blobMimeType b = None \<or> blobMimeType b = Some [] \<longrightarrow> mt = js ''image/png'') \<and>
              (\<forall>m. blobMimeType b = Some m \<and> m \<noteq> [] \<longrightarrow> mt = m)))
   \<and> generateEditedImage (\<lambda>request. Inr scenario_response) imageBase64 imageMimeType pr =
       Inr \<lparr>url = js ''data:image/png;base64,AAAA'', mimeType = js ''image/png''\<rparr>"
proof (intro conjI impI)
  assume h: "ai (build_request imageBase64 imageMimeType pr) = Inr response \<and>
    response_parts response = Some (pre @ p # post) \<and>
    (\<forall>q\<in>set pre. \<not> has_inline_image q) \<and>
    inlineData p = Some b \<and> data b = Some d \<and> d \<noteq> []"
  then have hp: "has_inline_image p"
    by (simp add: has_inline_image_def truthy_def)
  from h have img: "image_of_part p =
    Some \<lparr>url = js ''data:'' @ or_else (blobMimeType b) (js ''image/png'') @ js '';base64,'' @ d,
          mimeType = or_else (blobMimeType b) (js ''image/png'')\<rparr>"
    by (simp add: image_of_part_eq)
  from h hp have "find_image (pre @ p # post) = image_of_part p"
    by (simp add: find_image_first)
  with h img have "generateEditedImage ai imageBase64 imageMimeType pr =
    Inr \<lparr>url = js ''data:'' @ or_else (blobMimeType b) (js ''image/png'') @ js '';base64,'' @ d,
          mimeType = or_else (blobMimeType b) (js ''image/png'')\<rparr>"
    by (simp add: generateEditedImage_def parse_response_def)
  moreover have "blobMimeType b = None \<or> blobMimeType b = Some [] \<longrightarrow>
     or_else (blobMimeType b) (js ''image/png'') = js ''image/png''"
    by (auto simp: or_else_def)
  moreover have "\<forall>m. blobMimeType b = Some m \<and> m \<noteq> [] \<longrightarrow>
     or_else (blobMimeType b) (js ''image/png'') = m"
    by (auto simp: or_else_def)
  ultimately show "\<exists>mt. generateEditedImage ai imageBase64 imageMimeType pr =
                Inr \<lparr>url = js ''data:'' @ mt @ js '';base64,'' @ d, mimeType = mt\<rparr> \<and>
              (blobMimeType b = None \<or> blobMimeType b = Some [] \<longrightarrow> mt = js ''image/png'') \<and>
              (\<forall>m. blobMimeType b = Some m \<and> m \<noteq> [] \<longrightarrow> mt = m)"
    by blast
next
  show "generateEditedImage (\<lambda>request. Inr scenario_response) imageBase64 imageMimeType pr =
       Inr \<lparr>url = js ''data:image/png;base64,AAAA'', mimeType = js ''image/png''\<rparr>"
    by (simp add: generateEditedImage_def parse_response_def scenario_response_def
        response_parts_def image_of_part_def or_else_def Let_def js_def)
qed


lemma response_parts_response_of: "response_parts (response_of ps) = Some ps"
  by (simp add: response_parts_def response_of_def)

theorem generateEditedImage_first_image_witness:
  "generateEditedImage (\<lambda>request. Inr (response_of w_parts))
     (js ''data:image/png;base64,iVBO'') (js ''image/png'') (js ''oil'') =
   Inr \<lparr>url = js ''data:image/png;base64,QUJD'', mimeType = js ''image/png''\<rparr>"
proof -
  let ?p = "\<lparr>text' = None, inlineData = Some \<lparr>blobMimeType = None, data = Some (js ''QUJD'')\<rparr>\<rparr>"
  let ?pre = "[\<lparr>text' = Some (js ''Here is your painting''), inlineData = None\<rparr>]"
  let ?post = "[\<lparr>text' = None,
       inlineData = Some \<lparr>blobMimeType = Some (js ''image/jpeg''), data = Some (js ''WFla'')\<rparr>\<rparr>]"
  let ?b = "\<lparr>blobMimeType = None, data = Some (js ''QUJD'')\<rparr>"
  have h: "(\<lambda>request. Inr (response_of w_parts))
        (build_request (js ''data:image/png;base64,iVBO'') (js ''image/png'') (js ''oil'')) =
        Inr (response_of w_parts) \<and>
      response_parts (response_of w_parts) = Some (?pre @ ?p # ?post) \<and>
      (\<forall>q\<in>set ?pre. \<not> has_inline_image q) \<and>
      inlineData ?p = Some ?b \<and> data ?b = Some (js ''QUJD'') \<and> js ''QUJD'' \<noteq> []"
    by (simp add: response_parts_response_of w_parts_def has_inline_image_def js_def)
  from generateEditedImage_first_image [THEN conjunct1, rule_format, OF h]
  obtain mt where g: "generateEditedImage (\<lambda>request. Inr (response_of w_parts))
        (js ''data:image/png;base64,iVBO'') (js ''image/png'') (js ''oil'') =
        Inr \<lparr>url = js ''data:'' @ mt @ js '';base64,'' @ js ''QUJD'', mimeType = mt\<rparr>"
    and mt: "blobMimeType ?b = None \<or> blobMimeType ?b = Some [] \<longrightarrow> mt = js ''image/png''"
    by blast
  from mt have "mt = js ''image/png''" by simp
  with g show ?thesis by (simp add: js_def)
qed

text \<open>
  Claim C2. When no part of the parts list carries inline image data, the client fails.
  If some part has text, the message is the fixed opening, the first 100 code units of
  the text of the first such part, three dots and the closing quote, and so contains
  those code units; if no part has text, the message is the
  generic \<open>No image data found in response\<close>.
\<close>

theorem generateEditedImage_no_image:
  \<open>ai (build_request imageBase64 imageMimeType pr) = Inr response \<and>
   response_parts response = Some ps \<and>
   (\<forall>p\<in>set ps. \<not> has_inline_image p)
   \<longrightarrow>
     (\<forall>pre tp post t.
        ps = pre @ tp # post \<and> (\<forall>q\<in>set pre. \<not> truthy (text' q)) \<and>
        text' tp = Some t \<and> t \<noteq> []
        \<longrightarrow> (\<exists>msg. generateEditedImage ai imageBase64 imageMimeType pr = Inl (Error (Some msg)) \<and>
                   msg = js ''The model returned text instead of an image: "'' @ take 100 t @
                         js ''..."'' \<and>
                   sublist (take 100 t) msg)) \<and>
     ((\<forall>p\<in>set ps. \<not> truthy (text' p))
        \<longrightarrow> generateEditedImage ai imageBase64 imageMimeType pr =
              Inl (Error (Some (js ''No image data found in response''))))\<close>
proof (intro impI conjI allI)
  fix pre tp post t
  assume h: "ai (build_request imageBase64 imageMimeType pr) = Inr response \<and>
   response_parts response = Some ps \<and> (\<forall>p\<in>set ps. \<not> has_inline_image p)"
  assume t: "ps = pre @ tp # post \<and> (\<forall>q\<in>set pre. \<not> truthy (text' q)) \<and>
        text' tp = Some t \<and> t \<noteq> []"
  from h have none: "find_image ps = None" by (simp add: find_image_None)
  from t have "truthy (text' tp)" by (simp add: truthy_def)
  with t have "List.find (\<lambda>p. truthy (text' p)) ps = Some tp"
    by (simp add: find_first)
  with t have "no_image_error ps = Error (Some (text_message t))"
    by (simp add: no_image_error_def)
  with h none have "generateEditedImage ai imageBase64 imageMimeType pr =
      Inl (Error (Some (text_message t)))"
    by (simp add: generateEditedImage_def parse_response_def rethrow_text_message)
  moreover have \<open>text_message t =
      js ''The model returned text instead of an image: "'' @ take 100 t @ js ''..."''\<close>
    by (simp add: text_message_def substring0_def)
  moreover have "sublist (take 100 t) (text_message t)"
    using sublist_text_message [of t] by (simp add: substring0_def)
  ultimately show \<open>\<exists>msg. generateEditedImage ai imageBase64 imageMimeType pr =
        Inl (Error (Some msg)) \<and>
        msg = js ''The model returned text instead of an image: "'' @ take 100 t @ js ''..."'' \<and>
        sublist (take 100 t) msg\<close>
    by simp
next
  assume h: "ai (build_request imageBase64 imageMimeType pr) = Inr response \<and>
   response_parts response = Some ps \<and> (\<forall>p\<in>set ps. \<not> has_inline_image p)"
  assume nt: "\<forall>p\<in>set ps. \<not> truthy (text' p)"
  from h have none: "find_image ps = None" by (simp add: find_image_None)
  from nt have "List.find (\<lambda>p. truthy (text' p)) ps = None" by (simp add: find_none)
  then have "no_image_error ps = Error (Some (js ''No image data found in response''))"
    by (simp add: no_image_error_def)
  with h none show "generateEditedImage ai imageBase64 imageMimeType pr =
              Inl (Error (Some (js ''No image data found in response'')))"
    by (simp add: generateEditedImage_def parse_response_def or_else_def js_def)
qed

theorem generateEditedImage_no_image_witness:
  \<open>generateEditedImage
      (\<lambda>request. Inr (response_of [\<lparr>text' = Some (js ''Sorry, cannot comply''), inlineData = None\<rparr>]))
      (js ''QUJD'') (js ''image/png'') (js ''oil'') =
    Inl (Error (Some
      (js ''The model returned text instead of an image: "Sorry, cannot comply..."''))) \<and>
   generateEditedImage (\<lambda>request. Inr (response_of [])) (js ''QUJD'') (js ''image/png'') (js ''oil'') =
    Inl (Error (Some (js ''No image data found in response'')))\<close>
proof
  let ?tp = "\<lparr>text' = Some (js ''Sorry, cannot comply''), inlineData = None\<rparr>"
  let ?ai = "\<lambda>request :: sdk_request. (Inr (response_of [?tp]) :: js_error + sdk_response)"
  have h: "?ai (build_request (js ''QUJD'') (js ''image/png'') (js ''oil'')) =
        Inr (response_of [?tp]) \<and>
      response_parts (response_of [?tp]) = Some [?tp] \<and>
      (\<forall>p\<in>set [?tp]. \<not> has_inline_image p)"
    by (simp add: response_parts_response_of has_inline_image_def)
  have t: "[?tp] = [] @ ?tp # [] \<and> (\<forall>q\<in>set []. \<not> truthy (text' q)) \<and>
      text' ?tp = Some (js ''Sorry, cannot comply'') \<and> js ''Sorry, cannot comply'' \<noteq> []"
    by (simp add: js_def)
  from generateEditedImage_no_image [THEN mp, OF h, THEN conjunct1, THEN spec, THEN spec, THEN spec,
      THEN spec, THEN mp, OF t]
  show \<open>generateEditedImage ?ai (js ''QUJD'') (js ''image/png'') (js ''oil'') =
    Inl (Error (Some
      (js ''The model returned text instead of an image: "Sorry, cannot comply..."'')))\<close>
    by (simp add: js_def)
next
  let ?ai = "\<lambda>request :: sdk_request. (Inr (response_of []) :: js_error + sdk_response)"
  have h: "?ai (build_request (js ''QUJD'') (js ''image/png'') (js ''oil'')) =
        Inr (response_of []) \<and>
      response_parts (response_of []) = Some [] \<and>
      (\<forall>p\<in>set []. \<not> has_inline_image p)"
    by (simp add: response_parts_response_of)
  have nt: "\<forall>p\<in>set ([] :: part list). \<not> truthy (text' p)" by simp
  from generateEditedImage_no_image [THEN mp, OF h, THEN conjunct2, THEN mp, OF nt]
  show "generateEditedImage ?ai (js ''QUJD'') (js ''image/png'') (js ''oil'') =
    Inl (Error (Some (js ''No image data found in response'')))" .
qed


section \<open>The payload of the request\<close>

lemma strip_prefix_append: "strip_prefix p (p @ d) = Some d"
  by (simp add: strip_prefix_def)

text \<open>
  The prefix is removed for the four listed types, and a string that does not start with
  \<open>data:\<close> is sent as it is.
\<close>

lemma cleanBase64_listed:
  "cleanBase64 (js ''data:image/png;base64,'' @ d) = d"
  "cleanBase64 (js ''data:image/jpeg;base64,'' @ d) = d"
  "cleanBase64 (js ''data:image/jpg;base64,'' @ d) = d"
  "cleanBase64 (js ''data:image/webp;base64,'' @ d) = d"
  by (simp_all add: cleanBase64_def strip_prefix_def js_def)

lemma strip_prefix_None:
  assumes "take (length a) s \<noteq> a"
  shows "strip_prefix (a @ b) s = None"
proof -
  have "take (length (a @ b)) s \<noteq> a @ b"
  proof
    assume "take (length (a @ b)) s = a @ b"
    then have "take (length a) (take (length (a @ b)) s) = take (length a) (a @ b)" by simp
    then have "take (length a) s = a" by (simp add: min_def)
    with assms show False by simp
  qed
  then show ?thesis by (simp add: strip_prefix_def)
qed

lemma cleanBase64_no_data:
  assumes "take 5 s \<noteq> js ''data:''"
  shows "cleanBase64 s = s"
proof -
  have len: "length (js ''data:'') = 5"
    by (simp add: js_def)
  from assms have n: "take (length (js ''data:'')) s \<noteq> js ''data:''"
    unfolding len .
  have "strip_prefix (js ''data:'' @ js ''image/png;base64,'') s = None"
       "strip_prefix (js ''data:'' @ js ''image/jpeg;base64,'') s = None"
       "strip_prefix (js ''data:'' @ js ''image/jpg;base64,'') s = None"
       "strip_prefix (js ''data:'' @ js ''image/webp;base64,'') s = None"
    using n by (rule strip_prefix_None)+
  then show ?thesis
    by (simp add: cleanBase64_def js_append [symmetric])
qed

text \<open>
  Claim C3. The client is to strip any data-URI prefix, whatever the MIME type, from the
  image before it is sent. The pattern of the source lists four image types only: for the
  data URI of a GIF the payload is left as it is, and the \<open>data\<close> field of the request
  still starts with \<open>data:image/gif;base64,\<close>.
\<close>

theorem cleanBase64_gif:
  "cleanBase64 gif_data_uri = gif_data_uri \<and>
   parts (contents (build_request gif_data_uri (js ''image/gif'') pr)) =
     Some [\<lparr>text' = Some pr, inlineData = None\<rparr>,
           \<lparr>text' = None,
            inlineData = Some \<lparr>blobMimeType = Some (js ''image/gif''),
                               data = Some (js ''data:image/gif;base64,R0lGODlh'')\<rparr>\<rparr>]"
proof -
  have "cleanBase64 gif_data_uri = gif_data_uri"
    by (simp add: cleanBase64_def strip_prefix_def gif_data_uri_def js_def)
  then show ?thesis by (simp add: build_request_def gif_data_uri_def)
qed


section \<open>The orchestrator: generate\<close>

lemma js_trim_oil: "js_trim (js ''oil'') \<noteq> []"
  by (simp add: js_trim_Nil_iff js_def is_white_space_def)

text \<open>
  Claim C4. When the generation client rejects, the state after the \<open>catch\<close> block has
  stage idle and \<open>isLoading\<close> false, the error is the message of the rejection (the
  default text when the message is missing or empty), and the source image, the result
  image and the prompt are untouched. For a whole attempt, they are what they were when
  generate was invoked.
\<close>

theorem handleGenerate_rejected_state:
  "(let s2 = handleGenerate_rejected e s1 in
      stage (state s2) = Idle \<and> isLoading (state s2) = False \<and>
      (message e = None \<or> message e = Some [] \<longrightarrow>
         error (state s2) = Some (js ''Failed to process image. Please try again.'')) \<and>
      (\<forall>msg. message e = Some msg \<and> msg \<noteq> [] \<longrightarrow> error (state s2) = Some msg) \<and>
      sourceImage s2 = sourceImage s1 \<and> resultImage s2 = resultImage s1 \<and>
      prompt s2 = prompt s1) \<and>
   (handleGenerate_begin s0 = (s1, Some (b, m, p)) \<and> client b m p = Inl e \<longrightarrow>
      handleGenerate client s0 = handleGenerate_rejected e s1 \<and>
      sourceImage (handleGenerate client s0) = sourceImage s0 \<and>
      resultImage (handleGenerate client s0) = resultImage s0)"
proof (intro conjI)
  show "let s2 = handleGenerate_rejected e s1 in
      stage (state s2) = Idle \<and> isLoading (state s2) = False \<and>
      (message e = None \<or> message e = Some [] \<longrightarrow>
         error (state s2) = Some (js ''Failed to process image. Please try again.'')) \<and>
      (\<forall>msg. message e = Some msg \<and> msg \<noteq> [] \<longrightarrow> error (state s2) = Some msg) \<and>
      sourceImage s2 = sourceImage s1 \<and> resultImage s2 = resultImage s1 \<and>
      prompt s2 = prompt s1"
    by (auto simp: handleGenerate_rejected_def or_else_def Let_def)
next
  show "handleGenerate_begin s0 = (s1, Some (b, m, p)) \<and> client b m p = Inl e \<longrightarrow>
      handleGenerate client s0 = handleGenerate_rejected e s1 \<and>
      sourceImage (handleGenerate client s0) = sourceImage s0 \<and>
      resultImage (handleGenerate client s0) = resultImage s0"
  proof (intro impI)
    assume h: "handleGenerate_begin s0 = (s1, Some (b, m, p)) \<and> client b m p = Inl e"
    then have run: "handleGenerate client s0 = handleGenerate_rejected e s1"
      by (simp add: handleGenerate_def)
    from h have "sourceImage s1 = sourceImage s0 \<and> resultImage s1 = resultImage s0"
      by (auto simp: handleGenerate_begin_def split: option.splits if_splits)
    with run show "handleGenerate client s0 = handleGenerate_rejected e s1 \<and>
      sourceImage (handleGenerate client s0) = sourceImage s0 \<and>
      resultImage (handleGenerate client s0) = resultImage s0"
      by (simp add: handleGenerate_rejected_def)
  qed
qed


lemma handleGenerate_begin_w_app:
  "handleGenerate_begin w_app =
     (w_app\<lparr>state := \<lparr>isLoading = True, error = None, stage = Processing\<rparr>\<rparr>,
      Some (js ''data:image/png;base64,iVBO'', js ''image/png'', js ''oil''))"
  by (simp add: handleGenerate_begin_def w_app_def w_image_def js_trim_oil)

theorem handleGenerate_rejected_state_witness:
  "handleGenerate (generateEditedImage (\<lambda>request. Inl (Error None))) w_app =
     w_app\<lparr>state := \<lparr>isLoading = False, error = Some (js ''Failed to generate image''),
                      stage = Idle\<rparr>\<rparr> \<and>
   state (handleGenerate_rejected (Error None) w_app) =
     \<lparr>isLoading = False, error = Some (js ''Failed to process image. Please try again.''),
      stage = Idle\<rparr>"
proof
  let ?client = "generateEditedImage (\<lambda>request. Inl (Error None))"
  let ?e = "Error (Some (js ''Failed to generate image''))"
  let ?s1 = "w_app\<lparr>state := \<lparr>isLoading = True, error = None, stage = Processing\<rparr>\<rparr>"
  have c: "?client (js ''data:image/png;base64,iVBO'') (js ''image/png'') (js ''oil'') = Inl ?e"
    by (simp add: generateEditedImage_def or_else_def)
  from handleGenerate_rejected_state [where client = ?client, THEN conjunct2, THEN mp,
      OF conjI [OF handleGenerate_begin_w_app c]]
  have "handleGenerate ?client w_app = handleGenerate_rejected ?e ?s1" by simp
  then show "handleGenerate ?client w_app =
     w_app\<lparr>state := \<lparr>isLoading = False, error = Some (js ''Failed to generate image''),
                      stage = Idle\<rparr>\<rparr>"
    by (simp add: handleGenerate_rejected_def or_else_def js_def)
next
  from handleGenerate_rejected_state [of "Error None" w_app, THEN conjunct1]
  show "state (handleGenerate_rejected (Error None) w_app) =
     \<lparr>isLoading = False, error = Some (js ''Failed to process image. Please try again.''),
      stage = Idle\<rparr>"
    by (simp add: Let_def)
qed

text \<open>
  Claim C5. When the generation client resolves with an image, the final state has
  stage complete, \<open>isLoading\<close> false, the result set to the returned image and no
  error.
\<close>

theorem handleGenerate_resolved_state:
  "(let s2 = handleGenerate_resolved g s1 in
      stage (state s2) = Complete \<and> isLoading (state s2) = False \<and>
      resultImage s2 = Some g \<and> error (state s2) = None \<and>
      sourceImage s2 = sourceImage s1 \<and> prompt s2 = prompt s1) \<and>
   (handleGenerate_begin s0 = (s1, Some (b, m, p)) \<and> client b m p = Inr g \<longrightarrow>
      handleGenerate client s0 = handleGenerate_resolved g s1 \<and>
      resultImage (handleGenerate client s0) = Some g \<and>
      state (handleGenerate client s0) =
        \<lparr>isLoading = False, error = None, stage = Complete\<rparr>)"
proof (intro conjI)
  show "let s2 = handleGenerate_resolved g s1 in
      stage (state s2) = Complete \<and> isLoading (state s2) = False \<and>
      resultImage s2 = Some g \<and> error (state s2) = None \<and>
      sourceImage s2 = sourceImage s1 \<and> prompt s2 = prompt s1"
    by (simp add: handleGenerate_resolved_def Let_def)
next
  show "handleGenerate_begin s0 = (s1, Some (b, m, p)) \<and> client b m p = Inr g \<longrightarrow>
      handleGenerate client s0 = handleGenerate_resolved g s1 \<and>
      resultImage (handleGenerate client s0) = Some g \<and>
      state (handleGenerate client s0) =
        \<lparr>isLoading = False, error = None, stage = Complete\<rparr>"
    by (simp add: handleGenerate_def handleGenerate_resolved_def)
qed

theorem handleGenerate_resolved_state_witness:
  "handleGenerate (generateEditedImage (\<lambda>request. Inr scenario_response)) w_app =
     w_app\<lparr>resultImage :=
             Some \<lparr>url = js ''data:image/png;base64,AAAA'', mimeType = js ''image/png''\<rparr>,
           state := \<lparr>isLoading = False, error = None, stage = Complete\<rparr>\<rparr>"
proof -
  let ?client = "generateEditedImage (\<lambda>request. Inr scenario_response)"
  let ?g = "\<lparr>url = js ''data:image/png;base64,AAAA'', mimeType = js ''image/png''\<rparr>"
  let ?s1 = "w_app\<lparr>state := \<lparr>isLoading = True, error = None, stage = Processing\<rparr>\<rparr>"
  have c: "?client (js ''data:image/png;base64,iVBO'') (js ''image/png'') (js ''oil'') = Inr ?g"
    by (simp add: generateEditedImage_def parse_response_def scenario_response_def
        response_parts_def image_of_part_def or_else_def Let_def js_def)
  from handleGenerate_resolved_state [where client = ?client, THEN conjunct2, THEN mp,
      OF conjI [OF handleGenerate_begin_w_app c]]
  have "handleGenerate ?client w_app = handleGenerate_resolved ?g ?s1" by simp
  then show ?thesis
    by (simp add: handleGenerate_resolved_def)
qed

text \<open>
  Claim C6. Generate with no selected image sets the error to
  \<open>Please upload an image first.\<close>, leaves the stage as it was (idle stays idle) and
  makes no call to the generation client.
\<close>

theorem handleGenerate_no_image:
  "sourceImage s = None \<longrightarrow>
     handleGenerate_begin s =
       (s\<lparr>state := (state s)\<lparr>error := Some (js ''Please upload an image first.'')\<rparr>\<rparr>, None) \<and>
     error (state (fst (handleGenerate_begin s))) = Some (js ''Please upload an image first.'') \<and>
     stage (state (fst (handleGenerate_begin s))) = stage (state s) \<and>
     (stage (state s) = Idle \<longrightarrow> stage (state (fst (handleGenerate_begin s))) = Idle) \<and>
     snd (handleGenerate_begin s) = None \<and>
     (\<forall>client. handleGenerate client s = fst (handleGenerate_begin s))"
  by (simp add: handleGenerate_begin_def handleGenerate_def)

theorem handleGenerate_no_image_witness:
  "sourceImage init = None \<and> stage (state init) = Idle \<and>
   handleGenerate_begin init =
     (init\<lparr>state := \<lparr>isLoading = False, error = Some (js ''Please upload an image first.''),
                      stage = Idle\<rparr>\<rparr>, None)"
proof -
  have h: "sourceImage init = None" by (simp add: init_def)
  from handleGenerate_no_image [THEN mp, OF h]
  have "handleGenerate_begin init =
       (init\<lparr>state := (state init)\<lparr>error := Some (js ''Please upload an image first.'')\<rparr>\<rparr>, None)"
    by simp
  then show ?thesis by (simp add: init_def)
qed


section \<open>The orchestrator: clear, the example image and the loading flag\<close>

text \<open>
  Claim C7. From every state, the clear action gives the default prompt, no source
  image, no result image, no error, stage idle and \<open>isLoading\<close> false: the initial
  state.
\<close>

theorem clearAll_resets:
  "clearAll s =
     \<lparr>prompt = DEFAULT_PROMPT, sourceImage = None, resultImage = None,
      state = \<lparr>isLoading = False, error = None, stage = Idle\<rparr>\<rparr> \<and>
   clearAll s = init"
  by (simp add: clearAll_def init_def)

theorem clearAll_resets_witness:
  "clearAll w_app =
     \<lparr>prompt = DEFAULT_PROMPT, sourceImage = None, resultImage = None,
      state = \<lparr>isLoading = False, error = None, stage = Idle\<rparr>\<rparr>"
  using clearAll_resets [of w_app] by blast

text \<open>
  Claim C8. After the example fetch has settled, the stage is to be idle again and
  \<open>isLoading\<close> false. When the fetch fails, from any state, the \<open>catch\<close> and
  \<open>finally\<close> blocks set the error and clear \<open>isLoading\<close>, and the stage is still
  uploading.
\<close>

theorem loadExample_failure_stage:
  "stage (state (run [ExampleClicked, ExampleFailed] s)) = Uploading \<and>
   isLoading (state (run [ExampleClicked, ExampleFailed] s)) = False \<and>
   error (state (run [ExampleClicked, ExampleFailed] s)) =
     Some (js ''Failed to load example image. Please upload one manually.'')"
  by (simp add: loadExample_begin_def loadExample_rejected_def loadExample_catch_def
      loadExample_finally_def)

text \<open>
  When the fetch succeeds, the stage is still uploading after the \<open>finally\<close> block and
  becomes idle when the reader started by \<open>processFile\<close> has finished.
\<close>

lemma loadExample_success_stage:
  "stage (state (run [ExampleClicked, ExampleFetched] s)) = Uploading"
  "isLoading (state (run [ExampleClicked, ExampleFetched] s)) = False"
  "stage (state (run [ExampleClicked, ExampleFetched, FileLoaded f u r] s)) = Idle"
  "isLoading (state (run [ExampleClicked, ExampleFetched, FileLoaded f u r] s)) = False"
  by (simp_all add: loadExample_begin_def loadExample_resolved_def loadExample_finally_def
      processFile_onloadend_def)

text \<open>
  Whatever the events, \<open>isLoading\<close> holds only in the stages uploading and processing.
\<close>

lemma loading_inv_step: "loading_inv s \<Longrightarrow> loading_inv (step e s)"
  by (cases e)
    (auto simp: loading_inv_def processFile_onloadend_def loadExample_begin_def
      loadExample_resolved_def loadExample_rejected_def loadExample_catch_def
      loadExample_finally_def handleGenerate_begin_def handleGenerate_resolved_def
      handleGenerate_rejected_def clearAll_def split: option.splits if_splits)

lemma loading_inv_run: "loading_inv s \<Longrightarrow> loading_inv (run es s)"
  by (induction es arbitrary: s) (simp_all add: loading_inv_step)

lemma loading_inv_reachable: "loading_inv (run es init)"
  by (rule loading_inv_run) (simp add: loading_inv_def init_def)

text \<open>
  Claim C9. In every reachable state \<open>isLoading\<close> is to hold exactly when the stage is
  uploading or processing. The state reached from the initial one by a failed example
  fetch has the stage uploading and \<open>isLoading\<close> false.
\<close>

theorem isLoading_not_derivable:
  "\<not> (isLoading (state (run [ExampleClicked, ExampleFailed] init)) \<longleftrightarrow>
       stage (state (run [ExampleClicked, ExampleFailed] init)) \<in> {Uploading, Processing})"
  by (simp add: loadExample_begin_def loadExample_rejected_def loadExample_catch_def
      loadExample_finally_def)

text \<open>
  Claim C10. When generate returns early (no selected image, or a prompt that trims to
  the empty string), only the error changes: stage, \<open>isLoading\<close>, source image, result
  image and prompt keep their values, and the client is not called. With an image
  selected, a non-empty prompt of white-space code units only is rejected with
  \<open>Please enter a prompt.\<close>
\<close>

theorem handleGenerate_precondition_frame:
  "(sourceImage s = None \<or> js_trim (prompt s) = [] \<longrightarrow>
      (\<exists>msg. handleGenerate_begin s = (s\<lparr>state := (state s)\<lparr>error := Some msg\<rparr>\<rparr>, None)) \<and>
      (let s' = fst (handleGenerate_begin s) in
         stage (state s') = stage (state s) \<and> isLoading (state s') = isLoading (state s) \<and>
         sourceImage s' = sourceImage s \<and> resultImage s' = resultImage s \<and>
         prompt s' = prompt s) \<and>
      snd (handleGenerate_begin s) = None \<and>
      (\<forall>client. handleGenerate client s = fst (handleGenerate_begin s))) \<and>
   (sourceImage s \<noteq> None \<and> prompt s \<noteq> [] \<and> (\<forall>c\<in>set (prompt s). is_white_space c) \<longrightarrow>
      error (state (fst (handleGenerate_begin s))) = Some (js ''Please enter a prompt.'') \<and>
      snd (handleGenerate_begin s) = None)"
proof (intro conjI impI)
  assume "sourceImage s = None \<or> js_trim (prompt s) = []"
  then have e: "\<exists>msg. handleGenerate_begin s =
      (s\<lparr>state := (state s)\<lparr>error := Some msg\<rparr>\<rparr>, None)"
    by (auto simp: handleGenerate_begin_def split: option.splits)
  then show "\<exists>msg. handleGenerate_begin s =
      (s\<lparr>state := (state s)\<lparr>error := Some msg\<rparr>\<rparr>, None)" .
  from e show "let s' = fst (handleGenerate_begin s) in
         stage (state s') = stage (state s) \<and> isLoading (state s') = isLoading (state s) \<and>
         sourceImage s' = sourceImage s \<and> resultImage s' = resultImage s \<and>
         prompt s' = prompt s"
    by (auto simp: Let_def)
  from e show "snd (handleGenerate_begin s) = None" by auto
  from e show "\<forall>client. handleGenerate client s = fst (handleGenerate_begin s)"
    by (auto simp: handleGenerate_def)
next
  assume h: "sourceImage s \<noteq> None \<and> prompt s \<noteq> [] \<and> (\<forall>c\<in>set (prompt s). is_white_space c)"
  then have t: "js_trim (prompt s) = []" by (simp add: js_trim_Nil_iff)
  with h show "error (state (fst (handleGenerate_begin s))) = Some (js ''Please enter a prompt.'')"
    by (auto simp: handleGenerate_begin_def split: option.splits)
  from h t show "snd (handleGenerate_begin s) = None"
    by (auto simp: handleGenerate_begin_def split: option.splits)
qed

theorem handleGenerate_precondition_frame_witness:
  "prompt w_blank_app \<noteq> [] \<and>
   handleGenerate_begin w_blank_app =
     (w_blank_app\<lparr>state := \<lparr>isLoading = False, error = Some (js ''Please enter a prompt.''),
                            stage = Complete\<rparr>\<rparr>, None)"
proof -
  have ws: "\<forall>c\<in>set (prompt w_blank_app). is_white_space c"
    by (simp add: w_blank_app_def is_white_space_def)
  have h2: "sourceImage w_blank_app \<noteq> None \<and> prompt w_blank_app \<noteq> [] \<and>
      (\<forall>c\<in>set (prompt w_blank_app). is_white_space c)"
    using ws by (simp add: w_blank_app_def)
  from ws have h1: "sourceImage w_blank_app = None \<or> js_trim (prompt w_blank_app) = []"
    by (simp add: js_trim_Nil_iff)
  from handleGenerate_precondition_frame [of w_blank_app, THEN conjunct1, THEN mp, OF h1]
  obtain msg where b: "handleGenerate_begin w_blank_app =
      (w_blank_app\<lparr>state := (state w_blank_app)\<lparr>error := Some msg\<rparr>\<rparr>, None)"
    by blast
  from handleGenerate_precondition_frame [of w_blank_app, THEN conjunct2, THEN mp, OF h2]
  have "error (state (fst (handleGenerate_begin w_blank_app))) =
      Some (js ''Please enter a prompt.'')"
    by simp
  with b have "msg = js ''Please enter a prompt.''" by simp
  with b show ?thesis by (simp add: w_blank_app_def)
qed

end
